theory Spec2Isabelle
  imports Complex_Main "HOL-Library.Sublist"
begin

section \<open>Python strings\<close>

text \<open>
  A Python \<^verbatim>\<open>str\<close> is modelled as a \<^typ>\<open>string\<close>; a \<^typ>\<open>char\<close> stands for the code point
  with the same number (0 to 255).  The two character classes below are the ones CPython
  uses on these code points: \<^verbatim>\<open>\w\<close> of a \<^verbatim>\<open>str\<close> pattern (alphanumeric or underscore) and
  \<^verbatim>\<open>str.isspace\<close>, which \<^verbatim>\<open>str.strip()\<close> removes.
\<close>

definition is_word_char :: "char \<Rightarrow> bool" where
  "is_word_char c =
     (let n = (of_char c :: nat) in
        (48 \<le> n \<and> n \<le> 57) \<or> (65 \<le> n \<and> n \<le> 90) \<or> n = 95 \<or> (97 \<le> n \<and> n \<le> 122)
        \<or> n = 170 \<or> n = 178 \<or> n = 179 \<or> n = 181 \<or> n = 185 \<or> n = 186
        \<or> (188 \<le> n \<and> n \<le> 190) \<or> (192 \<le> n \<and> n \<le> 214) \<or> (216 \<le> n \<and> n \<le> 246)
        \<or> 248 \<le> n)"

definition is_space_char :: "char \<Rightarrow> bool" where
  "is_space_char c =
     (let n = (of_char c :: nat) in
        (9 \<le> n \<and> n \<le> 13) \<or> (28 \<le> n \<and> n \<le> 32) \<or> n = 133 \<or> n = 160)"

text \<open>\<^verbatim>\<open>s.strip()\<close>: whitespace removed at both ends.\<close>

definition py_strip :: "string \<Rightarrow> string" where
  "py_strip s = rev (dropWhile is_space_char (rev (dropWhile is_space_char s)))"

text \<open>\<^verbatim>\<open>s.split(sep)\<close> for a one-character separator: never an empty list.\<close>

fun py_split :: "char \<Rightarrow> string \<Rightarrow> string list" where
  "py_split sep [] = [[]]"
| "py_split sep (c # cs) =
     (if c = sep then [] # py_split sep cs
      else (case py_split sep cs of [] \<Rightarrow> [[c]] | w # ws \<Rightarrow> (c # w) # ws))"

fun strip_prefix :: "string \<Rightarrow> string \<Rightarrow> string option" where
  "strip_prefix [] s = Some s"
| "strip_prefix (p # ps) [] = None"
| "strip_prefix (p # ps) (c # cs) = (if p = c then strip_prefix ps cs else None)"

lemma strip_prefix_length:
  "strip_prefix p s = Some r \<Longrightarrow> length s = length p + length r"
  by (induction p s rule: strip_prefix.induct) (auto split: if_splits)

text \<open>
  \<^verbatim>\<open>s.replace(old, new)\<close>: every non-overlapping occurrence of \<open>old\<close>, leftmost first.
  For an empty \<open>old\<close> Python puts \<open>new\<close> before every character and at the end.
\<close>

fun replace_empty :: "string \<Rightarrow> string \<Rightarrow> string" where
  "replace_empty new [] = new"
| "replace_empty new (c # cs) = new @ c # replace_empty new cs"

function replace_from :: "string \<Rightarrow> string \<Rightarrow> string \<Rightarrow> string" where
  "replace_from old new [] = []"
| "replace_from old new (c # cs) =
     (case strip_prefix old (c # cs) of
        Some rest \<Rightarrow> if old = [] then c # cs else new @ replace_from old new rest
      | None \<Rightarrow> c # replace_from old new cs)"
  by pat_completeness auto

lemma strip_prefix_shorter:
  "strip_prefix p s = Some r \<Longrightarrow> p \<noteq> [] \<Longrightarrow> length r < length s"
  using strip_prefix_length [of p s r] by (cases p) auto

termination replace_from
  by (relation "measure (\<lambda>(old, new, s). length s)") (auto dest: strip_prefix_shorter)

declare replace_from.simps [simp del]

definition py_replace :: "string \<Rightarrow> string \<Rightarrow> string \<Rightarrow> string" where
  "py_replace s old new = (if old = [] then replace_empty new s else replace_from old new s)"

section \<open>The formula library\<close>

definition indices_formulas :: "(string \<times> string) list" where
  "indices_formulas =
    [(''Rnorm'', ''R / func_band_max(R)''),
     (''Gnorm'', ''G / func_band_max(G)''),
     (''Bnorm'', ''B / func_band_max(B)''),
     (''Rrefl_stary'', ''R / (R + G + B)''),
     (''Grefl_stary'', ''G / (R + G + B)''),
     (''Brefl_stary'', ''B / (R + G + B)''),
     (''ExR_stary'', ''MISSING''),
     (''ExG_stary'', ''2 * func_index(Grefl_stary) - func_index(Rrefl_stary) - func_index(Brefl_stary)''),
     (''ExGR_stary'', ''func_index(ExG_stary) - func_index(ExR_stary)''),
     (''ExR_wernette'', ''1.4 * R - G''),
     (''ExG_wernette'', ''2 * G - R - B''),
     (''ExB_wernette'', ''1.4 * B - G''),
     (''ExGR_wernette'', ''func_index(ExG_wernette) - func_index(ExR_wernette)''),
     (''NGRDI_wernette'', ''(G - R) / (G + R)''),
     (''MGRVI_wernette'', ''(G^2 - R^2) / (G^2 + R^2)''),
     (''GLI_wernette'', ''(2 * G - R - B) / (2 * G + R + B)''),
     (''GLI_stary'', ''((G - R)+ (G - B)) / (2 * G + R + B)''),
     (''RGBVI_wernette'', ''(G - (B * R)) / (G^2 + (B * R))''),
     (''RGBVI_stary'', ''(G ^ 2 - (B * R)) / (G ^ 2 + (B * R))''),
     (''IKAW_wernette'', ''(R - B) / (R + B)''),
     (''GLA_wernette'', ''((G - R) + (G - B)) / ((G + R) + (G + B))''),
     (''Gperc_stary'', ''G / (R + G + B)''),
     (''VARI_stary'', ''(G - R) / (G + R - B)''),
     (''TGI_stary'', ''G - 0.39 * R - 0.61 * B''),
     (''ExR_george'', ''1.4 * func_index(r_george) - func_index(g_george)''),
     (''ExG_george'', ''2 * func_index(g_george) - func_index(r_george) - func_index(b_george)''),
     (''ExGR_george'', ''func_index(ExG_george) - func_index(ExR_george)''),
     (''r_george'', ''func_index(Rnorm) / (func_index(Rnorm) + func_index(Gnorm) + func_index(Bnorm))''),
     (''g_george'', ''func_index(Gnorm) / (func_index(Rnorm) + func_index(Gnorm) + func_index(Bnorm))''),
     (''b_george'', ''func_index(Bnorm) / (func_index(Rnorm) + func_index(Gnorm) + func_index(Bnorm))''),
     (''NGRDI_stary'', ''(G - R) / (G + R)''),
     (''ExGRnorm_george'', ''(func_index(ExGR_george) + 2.4) / 5.4'')]"

section \<open>The formula resolver\<close>

datatype py_error =
    KeyError string
  | IndexError
  | ValueError string
  | QgsProcessingException string
  | ZeroDivisionError

record special_function =
  whole_match :: string
  function_name :: string
  parameters :: "string list"

text \<open>
  One attempt of the pattern \<^verbatim>\<open>(func_(\w+)\(([^)]*)\))\<close> at the start of a string.
  Both repetitions are greedy, and a shorter repetition can never help: after a shorter
  run of word characters the next character is a word character, not an opening
  parenthesis, and after a shorter run of non-parentheses the next character is not a
  closing parenthesis.  So the attempt is deterministic.  The result is the name, the
  raw parameter text and the text after the match.
\<close>

definition match_here :: "string \<Rightarrow> (string \<times> string \<times> string) option" where
  "match_here s =
     (case strip_prefix ''func_'' s of
        None \<Rightarrow> None
      | Some r \<Rightarrow>
          (let name = takeWhile is_word_char r in
           if name = [] then None
           else (case dropWhile is_word_char r of
                   [] \<Rightarrow> None
                 | c # r2 \<Rightarrow>
                     if c \<noteq> CHR ''('' then None
                     else (case dropWhile (\<lambda>x. x \<noteq> CHR '')'') r2 of
                             [] \<Rightarrow> None
                           | d # r4 \<Rightarrow> Some (name, takeWhile (\<lambda>x. x \<noteq> CHR '')'') r2, r4)))))"

lemma match_here_length:
  "match_here s = Some (name, args, rest) \<Longrightarrow> length rest < length s"
proof -
  assume m: "match_here s = Some (name, args, rest)"
  then obtain r where r: "strip_prefix ''func_'' s = Some r"
    by (auto simp: match_here_def split: option.splits)
  from m r obtain c r2 where r2: "dropWhile is_word_char r = c # r2"
    by (auto simp: match_here_def Let_def split: if_splits list.splits)
  from m r r2 obtain d where r4: "dropWhile (\<lambda>x. x \<noteq> CHR '')'') r2 = d # rest"
    by (auto simp: match_here_def Let_def split: if_splits list.splits)
  have "length (dropWhile (\<lambda>x. x \<noteq> CHR '')'') r2) \<le> length r2"
    by (rule length_dropWhile_le)
  moreover have "length (dropWhile is_word_char r) \<le> length r"
    by (rule length_dropWhile_le)
  moreover have "length s = 5 + length r"
    using strip_prefix_length [OF r] by simp
  ultimately show ?thesis using r2 r4 by simp
qed

text \<open>
  \<^verbatim>\<open>re.findall\<close>: matches are searched left to right; after a match the search goes on
  behind it, after a failed attempt one character further.
\<close>

function findall :: "string \<Rightarrow> (string \<times> string \<times> string) list" where
  "findall s =
     (case match_here s of
        Some (name, args, rest) \<Rightarrow>
          (''func_'' @ name @ ''('' @ args @ '')'', name, args) # findall rest
      | None \<Rightarrow> (case s of [] \<Rightarrow> [] | c # cs \<Rightarrow> findall cs))"
  by pat_completeness auto
termination
  by (relation "measure length") (auto dest: match_here_length)

declare findall.simps [simp del]

definition extract_special_functions :: "string \<Rightarrow> special_function list" where
  "extract_special_functions expression =
     map (\<lambda>(full_match, func_name, params).
            \<lparr>whole_match = full_match, function_name = func_name,
             parameters = filter (\<lambda>p. p \<noteq> []) (map py_strip (py_split CHR '','' params))\<rparr>)
         (findall expression)"

datatype stat_kind = MaximumValue | MinimumValue | Mean | StdDev

text \<open>
  The body of the \<^verbatim>\<open>for func in special_functions\<close> loop.  \<open>band_stat k b\<close> is the text
  \<^verbatim>\<open>str(raster.dataProvider().bandStatistics(b).<k>)\<close>, computed outside this repository.
  \<^verbatim>\<open>params[0]\<close> raises \<^verbatim>\<open>IndexError\<close> on an empty list, a dictionary lookup raises
  \<^verbatim>\<open>KeyError\<close> on a missing key, and a function name outside the five known ones leaves
  the expression as it is.
\<close>

definition first_param :: "string list \<Rightarrow> py_error + string" where
  "first_param params = (case params of [] \<Rightarrow> Inl IndexError | p # _ \<Rightarrow> Inr p)"

definition substitute_stat ::
  "(stat_kind \<Rightarrow> int \<Rightarrow> string) \<Rightarrow> (string \<rightharpoonup> int) \<Rightarrow> stat_kind \<Rightarrow> special_function \<Rightarrow>
   string \<Rightarrow> py_error + string" where
  "substitute_stat band_stat band_mapping k func built_index =
     (case first_param (parameters func) of
        Inl e \<Rightarrow> Inl e
      | Inr p \<Rightarrow>
          (case band_mapping p of
             None \<Rightarrow> Inl (KeyError p)
           | Some b \<Rightarrow> Inr (py_replace built_index (whole_match func) (band_stat k b))))"

definition apply_special_function ::
  "(stat_kind \<Rightarrow> int \<Rightarrow> string) \<Rightarrow> (string \<rightharpoonup> int) \<Rightarrow> special_function \<Rightarrow> string \<Rightarrow>
   py_error + string" where
  "apply_special_function band_stat band_mapping func built_index =
     (if function_name func = ''band_max'' then
        substitute_stat band_stat band_mapping MaximumValue func built_index
      else if function_name func = ''band_min'' then
        substitute_stat band_stat band_mapping MinimumValue func built_index
      else if function_name func = ''band_mean'' then
        substitute_stat band_stat band_mapping Mean func built_index
      else if function_name func = ''band_stddev'' then
        substitute_stat band_stat band_mapping StdDev func built_index
      else if function_name func = ''index'' then
        (case first_param (parameters func) of
           Inl e \<Rightarrow> Inl e
         | Inr p \<Rightarrow>
             (case map_of indices_formulas p of
                None \<Rightarrow> Inl (KeyError p)
              | Some index_val \<Rightarrow>
                  Inr (py_replace built_index (whole_match func) (''('' @ index_val @ '')''))))
      else Inr built_index)"

fun apply_special_functions ::
  "(stat_kind \<Rightarrow> int \<Rightarrow> string) \<Rightarrow> (string \<rightharpoonup> int) \<Rightarrow> special_function list \<Rightarrow> string \<Rightarrow>
   py_error + string" where
  "apply_special_functions band_stat band_mapping [] built_index = Inr built_index"
| "apply_special_functions band_stat band_mapping (func # funcs) built_index =
     (case apply_special_function band_stat band_mapping func built_index of
        Inl e \<Rightarrow> Inl e
      | Inr b \<Rightarrow> apply_special_functions band_stat band_mapping funcs b)"

text \<open>
  The \<^verbatim>\<open>while len(special_functions) > 0\<close> loop.  It need not end, so its value is an
  option: \<open>None\<close> is a run that never returns, \<open>Some (Inl e)\<close> a raised exception and
  \<open>Some (Inr s)\<close> the returned expression.
\<close>

partial_function (option) expand_loop ::
  "(stat_kind \<Rightarrow> int \<Rightarrow> string) \<Rightarrow> (string \<rightharpoonup> int) \<Rightarrow> special_function list \<Rightarrow> string \<Rightarrow>
   (py_error + string) option" where
  "expand_loop band_stat band_mapping special_functions built_index =
     (if length special_functions > 0 then
        (case apply_special_functions band_stat band_mapping special_functions built_index of
           Inl e \<Rightarrow> Some (Inl e)
         | Inr b \<Rightarrow> expand_loop band_stat band_mapping (extract_special_functions b) b)
      else Some (Inr built_index))"

declare expand_loop.simps [code]

definition calculate_special_functions ::
  "(stat_kind \<Rightarrow> int \<Rightarrow> string) \<Rightarrow> (string \<rightharpoonup> int) \<Rightarrow> string \<Rightarrow> (py_error + string) option" where
  "calculate_special_functions band_stat band_mapping index =
     expand_loop band_stat band_mapping (extract_special_functions index) index"

section \<open>Rasters, tasks and results\<close>

text \<open>
  What the scheduler reads from a loaded \<^verbatim>\<open>QgsRasterLayer\<close>: the sizes its data provider
  reports.  They are counts, so they are natural numbers.
\<close>

record raster_layer =
  source :: string
  xSize :: nat
  ySize :: nat
  bandCount :: nat
  dataTypeSize :: nat

text \<open>
  The result dictionary of a task, with the keys of the source.  Memory sizes and times
  are Python floats in the source and exact rationals here.  Every memory size the
  program computes is an integer number of bytes times \<open>(bands + 1)\<close>, divided by
  \<open>2\<^sup>2\<^sup>0\<close>, and sums and differences of such numbers are exact in double precision as
  long as they stay below \<open>2\<^sup>3\<^sup>3\<close> megabytes; rounding beyond that size is not modelled.
\<close>

record task_result =
  index :: string
  calculation_status :: string
  message :: "string option"
  output_file :: "string option"
  time_spent :: rat
  saving_status :: "string option"

text \<open>
  The fields a \<^verbatim>\<open>RasterIndexCalculatorTask\<close> gets in its constructor.  Python task
  objects are compared by identity; \<open>task_id\<close>, the number of tasks created before this
  one, makes two tasks of one run different values.  The field \<open>task_index\<close> is the
  attribute \<^verbatim>\<open>index\<close> and \<open>task_destination\<close> the attribute \<^verbatim>\<open>output_file\<close>.  The two
  attributes that the task's own thread changes, its progress and its \<^verbatim>\<open>result\<close>, belong to
  the environment below.
\<close>

record task =
  task_id :: nat
  description :: string
  task_raster :: raster_layer
  total_memory_usage :: rat
  task_index :: string
  formula :: string
  task_band_mapping :: "(string \<times> int) list"
  output_in_memory_file :: string
  task_destination :: string

text \<open>
  How \<^verbatim>\<open>RasterIndexCalculatorTask.run\<close> ends: the raster calculator succeeds, reports a
  failure (with \<^verbatim>\<open>lastError()\<close>), or an exception is caught (with its text); each with the
  time spent.  \<open>run_result\<close> is the dictionary that \<^verbatim>\<open>run\<close> stores in \<^verbatim>\<open>self.result\<close> before it
  sets the progress to 100.
\<close>

datatype calculation = Succeeded rat | Failed string rat | Raised string rat

fun run_result :: "task \<Rightarrow> calculation \<Rightarrow> task_result" where
  "run_result t (Succeeded spent) =
     \<lparr>index = task_index t, calculation_status = ''success'', message = None,
      output_file = None, time_spent = spent, saving_status = None\<rparr>"
| "run_result t (Failed err spent) =
     \<lparr>index = task_index t, calculation_status = ''error'', message = Some err,
      output_file = None, time_spent = spent, saving_status = None\<rparr>"
| "run_result t (Raised err spent) =
     \<lparr>index = task_index t, calculation_status = ''exception'', message = Some err,
      output_file = None, time_spent = spent, saving_status = None\<rparr>"

section \<open>The save worker\<close>

text \<open>An entry of \<^verbatim>\<open>__saved_rasters\<close>, with the keys of the source
  (\<open>saved_description\<close> is \<^verbatim>\<open>description\<close>, \<open>saved_output_file\<close> is \<^verbatim>\<open>output_file\<close>).\<close>

record saved_raster =
  total_saved_size :: rat
  saved_description :: string
  saved_output_file :: string
  result :: task_result

text \<open>
  \<^verbatim>\<open>RasterSaveTask\<close>: the work queue holds the tuples
  \<^verbatim>\<open>(output_file, output_in_memory_file, estimated_size, description, result)\<close>.  The
  condition variable and the lock make each method below one atomic step.
\<close>

type_synonym save_item = "string \<times> string \<times> rat \<times> string \<times> task_result"

record raster_save_task =
  task_queue :: "save_item list"
  running :: bool
  saved_rasters :: "saved_raster list"

definition new_raster_save_task :: raster_save_task where
  "new_raster_save_task = \<lparr>task_queue = [], running = True, saved_rasters = []\<rparr>"

definition add_task ::
  "string \<Rightarrow> string \<Rightarrow> rat \<Rightarrow> string \<Rightarrow> task_result \<Rightarrow> raster_save_task \<Rightarrow> raster_save_task" where
  "add_task out_file in_memory_file estimated_size descr res w =
     w\<lparr>task_queue := task_queue w @ [(out_file, in_memory_file, estimated_size, descr, res)]\<rparr>"

definition append_saved_raster :: "saved_raster \<Rightarrow> raster_save_task \<Rightarrow> raster_save_task" where
  "append_saved_raster r w = w\<lparr>saved_rasters := saved_rasters w @ [r]\<rparr>"

text \<open>
  One turn of the loop in \<^verbatim>\<open>RasterSaveTask.run\<close>: the next queue entry is taken,
  \<^verbatim>\<open>gdal.Translate\<close> runs (\<open>translate_error\<close> is \<open>None\<close> when it succeeds and the text of
  the exception otherwise), the saving status is written into the result and the record
  is appended to the completion buffer, in both cases.
\<close>

definition save_next :: "string option \<Rightarrow> raster_save_task \<Rightarrow> raster_save_task" where
  "save_next translate_error w =
     (case task_queue w of
        [] \<Rightarrow> w
      | (out_file, in_memory_file, estimated_size, descr, res) # queue \<Rightarrow>
          if \<not> running w then w
          else append_saved_raster
                 \<lparr>total_saved_size = estimated_size, saved_description = descr,
                  saved_output_file = out_file,
                  result = res\<lparr>saving_status :=
                    Some (case translate_error of
                            None \<Rightarrow> ''success''
                          | Some e \<Rightarrow> ''error - '' @ e)\<rparr>\<rparr>
                 (w\<lparr>task_queue := queue\<rparr>))"

definition cancel :: "raster_save_task \<Rightarrow> raster_save_task" where
  "cancel w = w\<lparr>running := False\<rparr>"

definition get_and_reset_saved_rasters ::
  "raster_save_task \<Rightarrow> saved_raster list \<times> raster_save_task" where
  "get_and_reset_saved_rasters w = (saved_rasters w, w\<lparr>saved_rasters := []\<rparr>)"

text \<open>
  A history of the completion buffer: the worker appends records and the scheduler
  drains, in any order.  \<open>drains ops w\<close> is the list of what each drain returned, with the
  worker state at the end.
\<close>

datatype buffer_op = Append saved_raster | Drain

fun drains :: "buffer_op list \<Rightarrow> raster_save_task \<Rightarrow> saved_raster list list \<times> raster_save_task" where
  "drains [] w = ([], w)"
| "drains (Append r # ops) w = drains ops (append_saved_raster r w)"
| "drains (Drain # ops) w =
     (case get_and_reset_saved_rasters w of
        (out, w') \<Rightarrow> (case drains ops w' of (outs, w'') \<Rightarrow> (out # outs, w'')))"

fun appended :: "buffer_op list \<Rightarrow> saved_raster list" where
  "appended [] = []"
| "appended (Append r # ops) = r # appended ops"
| "appended (Drain # ops) = appended ops"

definition saved_example :: "string \<Rightarrow> saved_raster" where
  "saved_example n =
     \<lparr>total_saved_size = 1, saved_description = ''Calculate '' @ n,
      saved_output_file = ''/out/a_'' @ n @ ''.tiff'',
      result = \<lparr>index = n, calculation_status = ''success'', message = None,
                output_file = None, time_spent = 1, saving_status = Some ''success''\<rparr>\<rparr>"

section \<open>The scheduler\<close>

text \<open>
  Everything outside this repository that a run depends on.  \<open>load_layer\<close> is \<open>None\<close> for a
  file whose layer is not valid; \<open>band_statistics\<close> is the text of a band statistic;
  \<open>file_stem\<close> and \<open>path_join\<close> are the \<^verbatim>\<open>os.path\<close> computations of \<^verbatim>\<open>create_tasks\<close>.  The
  environment runs beside the scheduler: \<open>finished t i\<close> says whether the task with
  identifier \<open>i\<close> reports a progress of 100 when it is asked at time \<open>t\<close>, \<open>outcome i\<close> is how
  its run ended, \<open>worker_turns t\<close> is the number of queue entries the save worker handles
  during step \<open>t\<close>, and \<open>translate t out mem\<close> is the outcome of \<^verbatim>\<open>gdal.Translate\<close> there.  The
  scheduler's clock counts the steps of the environment; there is one step before every
  read of something the environment changes, and one for every \<^verbatim>\<open>time.sleep\<close>.
\<close>

record environment =
  load_layer :: "string \<Rightarrow> raster_layer option"
  band_statistics :: "raster_layer \<Rightarrow> stat_kind \<Rightarrow> int \<Rightarrow> string"
  file_stem :: "string \<Rightarrow> string"
  path_join :: "string \<Rightarrow> string \<Rightarrow> string"
  finished :: "nat \<Rightarrow> nat \<Rightarrow> bool"
  outcome :: "nat \<Rightarrow> calculation"
  worker_turns :: "nat \<Rightarrow> nat"
  translate :: "nat \<Rightarrow> string \<Rightarrow> string \<Rightarrow> string option"
  wall_time :: "nat \<Rightarrow> rat"

datatype qgs_task = SaveTask | CalculatorTask task

text \<open>
  The attributes of a \<^verbatim>\<open>RasterIndexCalculator\<close>, followed by four fields that are not in
  the object: the tasks given to \<^verbatim>\<open>QgsApplication.taskManager().addTask\<close>, the clock, the
  number of tasks created so far and the number of calls of \<^verbatim>\<open>time.sleep\<close>.
\<close>

record calculator =
  input_files :: "string list"
  selected_indices :: "string list"
  band_mapping :: "(string \<times> int) list"
  output_dir :: string
  raster_layers :: "raster_layer list"
  results :: "task_result list"
  total_time :: rat
  max_memory_usage :: rat
  max_active_tasks :: int
  active_tasks :: "task list"
  saving_tasks_queue :: "task list"
  memory_usage :: rat
  number_of_tasks :: nat
  progress :: rat
  progress_step :: rat
  save_worker :: raster_save_task
  task_manager :: "qgs_task list"
  clock :: nat
  created :: nat
  sleeps :: nat

text \<open>\<^verbatim>\<open>__init__\<close>.  The progress step is \<^verbatim>\<open>100 / self.number_of_tasks\<close>, which raises when
  there is no task; \<open>selected_indices\<close> is the comma-separated text.\<close>

definition calculate_progress_step :: "nat \<Rightarrow> py_error + rat" where
  "calculate_progress_step n = (if n = 0 then Inl ZeroDivisionError else Inr (100 / of_nat n))"

definition init ::
  "string list \<Rightarrow> string \<Rightarrow> (string \<times> int) list \<Rightarrow> string \<Rightarrow> rat \<Rightarrow> int \<Rightarrow> py_error + calculator" where
  "init files indices bands out_dir max_memory max_active =
     (let selected = py_split CHR '','' indices;
          n = length files * length selected
      in case calculate_progress_step n of
           Inl e \<Rightarrow> Inl e
         | Inr step \<Rightarrow>
             Inr \<lparr>input_files = files, selected_indices = selected, band_mapping = bands,
                  output_dir = out_dir, raster_layers = [], results = [], total_time = 0,
                  max_memory_usage = max_memory, max_active_tasks = max_active,
                  active_tasks = [], saving_tasks_queue = [], memory_usage = 0,
                  number_of_tasks = n, progress = 0, progress_step = step,
                  save_worker = new_raster_save_task,
                  task_manager = [], clock = 0, created = 0, sleeps = 0\<rparr>)"

text \<open>\<^verbatim>\<open>__validate_indices\<close>: the first selected name that is not in the library raises.\<close>

fun validate_indices :: "string list \<Rightarrow> py_error option" where
  "validate_indices [] = None"
| "validate_indices (i # is) =
     (if map_of indices_formulas i = None then Some (ValueError (''Unsupported index: '' @ i))
      else validate_indices is)"

text \<open>\<^verbatim>\<open>round(x, 1)\<close>, on exact values: to the nearest tenth, a tie to the even one.\<close>

definition round_half_even :: "rat \<Rightarrow> int" where
  "round_half_even x =
     (let f = \<lfloor>x\<rfloor>; d = x - of_int f
      in if d < 1 / 2 then f else if 1 / 2 < d then f + 1 else if even f then f else f + 1)"

definition increase_progress :: "calculator \<Rightarrow> calculator" where
  "increase_progress st =
     st\<lparr>progress := of_int (round_half_even ((progress st + progress_step st) * 10)) / 10\<rparr>"

text \<open>One step of the environment: the save worker handles some entries of its queue.\<close>

fun worker_run :: "environment \<Rightarrow> nat \<Rightarrow> nat \<Rightarrow> raster_save_task \<Rightarrow> raster_save_task" where
  "worker_run env t 0 w = w"
| "worker_run env t (Suc k) w =
     worker_run env t k
       (case task_queue w of
          [] \<Rightarrow> w
        | (out_file, in_memory_file, rest) # queue \<Rightarrow>
            save_next (translate env t out_file in_memory_file) w)"

definition tick :: "environment \<Rightarrow> calculator \<Rightarrow> calculator" where
  "tick env st =
     st\<lparr>clock := clock st + 1,
        save_worker := worker_run env (clock st) (worker_turns env (clock st)) (save_worker st)\<rparr>"

definition sleep :: "environment \<Rightarrow> calculator \<Rightarrow> calculator" where
  "sleep env st = tick env (st\<lparr>sleeps := sleeps st + 1\<rparr>)"

text \<open>
  \<^verbatim>\<open>__calculate_raster_memory_usage\<close> and the cost of a task in \<^verbatim>\<open>create_tasks\<close>; the division
  by the band count raises for a raster without bands.
\<close>

definition calculate_raster_memory_usage :: "raster_layer \<Rightarrow> rat" where
  "calculate_raster_memory_usage raster =
     (let width = ySize raster; height = xSize raster; bands = bandCount raster;
          bytes_per_pixel = dataTypeSize raster;
          memory = width * height * bands * bytes_per_pixel
      in of_nat memory / 1024 / 1024)"

definition task_memory_usage :: "raster_layer \<Rightarrow> py_error + rat" where
  "task_memory_usage raster =
     (let raster_memory_usage = calculate_raster_memory_usage raster
      in if bandCount raster = 0 then Inl ZeroDivisionError
         else Inr (raster_memory_usage + raster_memory_usage / of_nat (bandCount raster)))"

definition make_task ::
  "environment \<Rightarrow> calculator \<Rightarrow> string \<Rightarrow> raster_layer \<Rightarrow> rat \<Rightarrow> string \<Rightarrow> string \<Rightarrow> task" where
  "make_task env st input_file_name raster cost idx resolved =
     \<lparr>task_id = created st,
      description = ''Calculate '' @ idx,
      task_raster = raster,
      total_memory_usage = cost,
      task_index = idx,
      formula = resolved,
      task_band_mapping = band_mapping st,
      output_in_memory_file = ''/vsimem/'' @ input_file_name @ ''_'' @ idx @ ''.tiff'',
      task_destination = path_join env (output_dir st) (input_file_name @ ''_'' @ idx @ ''.tiff'')\<rparr>"

text \<open>The result recorded for a task that is refused at admission.\<close>

definition rejected_result :: "task \<Rightarrow> task_result" where
  "rejected_result t =
     \<lparr>index = task_index t, calculation_status = ''error'',
      message = Some (''Task '' @ description t @ '' exceeds the maximum memory usage''),
      output_file = None, time_spent = 0, saving_status = None\<rparr>"

definition reject :: "task \<Rightarrow> calculator \<Rightarrow> calculator" where
  "reject t st = st\<lparr>results := results st @ [rejected_result t]\<rparr>"

definition admit :: "task \<Rightarrow> calculator \<Rightarrow> calculator" where
  "admit t st =
     st\<lparr>memory_usage := memory_usage st + total_memory_usage t,
        active_tasks := active_tasks st @ [t],
        task_manager := task_manager st @ [CalculatorTask t]\<rparr>"

text \<open>
  \<^verbatim>\<open>__transfer_finished_tasks_to_saving_queue\<close>.  The \<^verbatim>\<open>for\<close> loop walks the list by
  position while the body removes from it, so the task behind a removed one is skipped
  in this sweep.  \<open>reap\<close> is the body for a task whose progress is 100.
\<close>

definition reap :: "environment \<Rightarrow> task \<Rightarrow> calculator \<Rightarrow> calculator" where
  "reap env t st =
     (let res = run_result t (outcome env (task_id t));
          st' = (if calculation_status res = ''success''
                 then st\<lparr>saving_tasks_queue := saving_tasks_queue st @ [t]\<rparr>
                 else increase_progress
                        (st\<lparr>memory_usage := memory_usage st - total_memory_usage t,
                            results := results st @ [res]\<rparr>))
      in st'\<lparr>active_tasks := remove1 t (active_tasks st')\<rparr>)"

lemma active_tasks_tick: "active_tasks (tick env st) = active_tasks st"
  by (simp add: tick_def)

lemma length_active_tasks_reap: "length (active_tasks (reap env t st)) \<le> length (active_tasks st)"
  by (simp add: reap_def Let_def increase_progress_def length_remove1)

function transfer_loop :: "environment \<Rightarrow> nat \<Rightarrow> calculator \<Rightarrow> calculator" where
  "transfer_loop env i st =
     (if i < length (active_tasks st) then
        (if finished env (clock (tick env st)) (task_id (active_tasks st ! i))
         then transfer_loop env (Suc i) (reap env (active_tasks st ! i) (tick env st))
         else transfer_loop env (Suc i) (tick env st))
      else st)"
  by pat_completeness auto
termination
proof (relation "measure (\<lambda>(env, i, st). length (active_tasks st) - i)", goal_cases)
  case 1
  show ?case by simp
next
  case (2 env i st)
  then show ?case
    using length_active_tasks_reap [of env "active_tasks st ! i" "tick env st"]
    by (simp add: active_tasks_tick)
next
  case (3 env i st)
  then show ?case by (simp add: active_tasks_tick)
qed

declare transfer_loop.simps [simp del]

definition transfer_finished_tasks_to_saving_queue :: "environment \<Rightarrow> calculator \<Rightarrow> calculator" where
  "transfer_finished_tasks_to_saving_queue env st = transfer_loop env 0 st"

text \<open>\<^verbatim>\<open>RasterSaveTask.add_tasks\<close> reads each task's result, and
  \<^verbatim>\<open>__save_rasters_from_memory_to_disk\<close> empties the saving queue after it.\<close>

fun add_tasks :: "environment \<Rightarrow> task list \<Rightarrow> raster_save_task \<Rightarrow> raster_save_task" where
  "add_tasks env [] w = w"
| "add_tasks env (t # ts) w =
     add_tasks env ts
       (add_task (task_destination t) (output_in_memory_file t) (total_memory_usage t)
          (description t) (run_result t (outcome env (task_id t))) w)"

definition save_rasters_from_memory_to_disk :: "environment \<Rightarrow> calculator \<Rightarrow> calculator" where
  "save_rasters_from_memory_to_disk env st =
     st\<lparr>save_worker := add_tasks env (saving_tasks_queue st) (save_worker st),
        saving_tasks_queue := []\<rparr>"

text \<open>\<^verbatim>\<open>__get_saved_rasters\<close>: the buffer is drained and every record is booked.\<close>

definition collect :: "saved_raster \<Rightarrow> calculator \<Rightarrow> calculator" where
  "collect r st =
     (increase_progress (st\<lparr>results := results st @ [result r]\<rparr>))
       \<lparr>memory_usage := memory_usage st - total_saved_size r\<rparr>"

definition collect_saved :: "calculator \<Rightarrow> calculator" where
  "collect_saved st =
     (case get_and_reset_saved_rasters (save_worker st) of
        (saved, w) \<Rightarrow> foldl (\<lambda>s r. collect r s) (st\<lparr>save_worker := w\<rparr>) saved)"

definition get_saved_rasters :: "environment \<Rightarrow> calculator \<Rightarrow> calculator" where
  "get_saved_rasters env st = collect_saved (tick env st)"

definition sweep :: "environment \<Rightarrow> calculator \<Rightarrow> calculator" where
  "sweep env st =
     get_saved_rasters env
       (save_rasters_from_memory_to_disk env (transfer_finished_tasks_to_saving_queue env st))"

text \<open>
  The wait after a sweep.  \<open>all_unfinished\<close> is \<^verbatim>\<open>all(t.progress() != 100 for t in
  self.active_tasks)\<close>, which stops at the first finished task; \<open>over_both_limits\<close> is the
  conjunction in front of it, and Python does not evaluate \<^verbatim>\<open>all(...)\<close> when that is false.
\<close>

fun all_unfinished :: "environment \<Rightarrow> task list \<Rightarrow> calculator \<Rightarrow> bool \<times> calculator" where
  "all_unfinished env [] st = (True, st)"
| "all_unfinished env (t # ts) st =
     (if finished env (clock (tick env st)) (task_id t) then (False, tick env st)
      else all_unfinished env ts (tick env st))"

definition over_both_limits :: "calculator \<Rightarrow> bool" where
  "over_both_limits st \<longleftrightarrow>
     max_memory_usage st \<le> memory_usage st \<and> max_active_tasks st \<le> int (length (active_tasks st))"

definition over_some_limit :: "calculator \<Rightarrow> bool" where
  "over_some_limit st \<longleftrightarrow>
     max_memory_usage st \<le> memory_usage st \<or> max_active_tasks st \<le> int (length (active_tasks st))"

text \<open>One evaluation of the loop condition: whether the loop goes on, and the state
  after the progress of the active tasks has been read.\<close>

definition keeps_waiting :: "environment \<Rightarrow> calculator \<Rightarrow> bool" where
  "keeps_waiting env st \<longleftrightarrow>
     over_both_limits st \<and> fst (all_unfinished env (active_tasks st) st)"

definition poll :: "environment \<Rightarrow> calculator \<Rightarrow> calculator" where
  "poll env st = (if over_both_limits st then snd (all_unfinished env (active_tasks st) st) else st)"

text \<open>The state after \<open>j\<close> turns of the waiting loop.\<close>

fun waited :: "environment \<Rightarrow> nat \<Rightarrow> calculator \<Rightarrow> calculator" where
  "waited env 0 st = st"
| "waited env (Suc j) st = waited env j (sleep env (poll env st))"

partial_function (option) wait_loop :: "environment \<Rightarrow> calculator \<Rightarrow> calculator option" where
  "wait_loop env st =
     (if over_both_limits st then
        (case all_unfinished env (active_tasks st) st of
           (unfinished, st1) \<Rightarrow> if unfinished then wait_loop env (sleep env st1) else Some st1)
      else Some st)"

declare wait_loop.simps [code]

definition backpressure :: "environment \<Rightarrow> calculator \<Rightarrow> calculator option" where
  "backpressure env st = (if over_some_limit st then wait_loop env st else Some st)"

text \<open>The body of the \<^verbatim>\<open>for task in task_generator\<close> loop of \<^verbatim>\<open>execute\<close>.\<close>

definition schedule :: "environment \<Rightarrow> task \<Rightarrow> calculator \<Rightarrow> calculator option" where
  "schedule env t st =
     (if max_memory_usage st < total_memory_usage t then Some (reject t st)
      else backpressure env (sweep env (admit t st)))"

text \<open>
  \<^verbatim>\<open>create_tasks\<close> is a generator: the code up to the next \<^verbatim>\<open>yield\<close> runs when the loop of
  \<^verbatim>\<open>execute\<close> asks for the next task.  So a file is loaded when the tasks of the files
  before it have been scheduled, and a formula is resolved when the task before it has
  been scheduled.  An exception carries the state in which it was raised.
\<close>

type_synonym 'a outcome = "((py_error \<times> calculator) + 'a) option"

fun index_loop ::
  "environment \<Rightarrow> string \<Rightarrow> raster_layer \<Rightarrow> rat \<Rightarrow> string list \<Rightarrow> calculator \<Rightarrow> calculator outcome" where
  "index_loop env input_file_name raster cost [] st = Some (Inr st)"
| "index_loop env input_file_name raster cost (idx # rest) st =
     (case map_of indices_formulas idx of
        None \<Rightarrow> Some (Inl (KeyError idx, st))
      | Some template \<Rightarrow>
          (case calculate_special_functions (band_statistics env raster)
                  (map_of (band_mapping st)) template of
             None \<Rightarrow> None
           | Some (Inl e) \<Rightarrow> Some (Inl (e, st))
           | Some (Inr resolved) \<Rightarrow>
               (case schedule env (make_task env st input_file_name raster cost idx resolved)
                       (st\<lparr>created := created st + 1\<rparr>) of
                  None \<Rightarrow> None
                | Some st' \<Rightarrow> index_loop env input_file_name raster cost rest st')))"

fun file_loop :: "environment \<Rightarrow> string list \<Rightarrow> calculator \<Rightarrow> calculator outcome" where
  "file_loop env [] st = Some (Inr st)"
| "file_loop env (input_file # rest) st =
     (case load_layer env input_file of
        None \<Rightarrow> Some (Inl (QgsProcessingException (''Invalid raster file: '' @ input_file), st))
      | Some raster \<Rightarrow>
          (case task_memory_usage raster of
             Inl e \<Rightarrow> Some (Inl (e, st))
           | Inr cost \<Rightarrow>
               (case index_loop env (file_stem env input_file) raster cost
                       (selected_indices st) st of
                  None \<Rightarrow> None
                | Some (Inl x) \<Rightarrow> Some (Inl x)
                | Some (Inr st') \<Rightarrow> file_loop env rest st')))"

text \<open>The two loops at the end of \<^verbatim>\<open>execute\<close>.\<close>

partial_function (option) wait_for_active_tasks :: "environment \<Rightarrow> calculator \<Rightarrow> calculator option" where
  "wait_for_active_tasks env st =
     (if 0 < length (active_tasks st) then wait_for_active_tasks env (sweep env (sleep env st))
      else Some st)"

declare wait_for_active_tasks.simps [code]

partial_function (option) wait_for_results :: "environment \<Rightarrow> calculator \<Rightarrow> calculator option" where
  "wait_for_results env st =
     (if length (results st) < number_of_tasks st
      then wait_for_results env (get_saved_rasters env (sleep env st))
      else Some st)"

declare wait_for_results.simps [code]

text \<open>
  \<^verbatim>\<open>execute\<close>.  The dictionary it returns is made of the fields \<open>results\<close> and \<open>total_time\<close> of
  the state it ends in.
\<close>

definition execute :: "environment \<Rightarrow> calculator \<Rightarrow> calculator outcome" where
  "execute env st =
     (case validate_indices (selected_indices st) of
        Some e \<Rightarrow> Some (Inl (e, st))
      | None \<Rightarrow>
          (let start_time = wall_time env (clock st)
           in case file_loop env (input_files st) (st\<lparr>task_manager := task_manager st @ [SaveTask]\<rparr>) of
                None \<Rightarrow> None
              | Some (Inl x) \<Rightarrow> Some (Inl x)
              | Some (Inr st1) \<Rightarrow>
                  (case wait_for_active_tasks env st1 of
                     None \<Rightarrow> None
                   | Some st2 \<Rightarrow>
                       (case wait_for_results env st2 of
                          None \<Rightarrow> None
                        | Some st3 \<Rightarrow>
                            Some (Inr (st3\<lparr>total_time := wall_time env (clock st3) - start_time\<rparr>))))))"

section \<open>Sequences of scheduler operations\<close>

text \<open>
  The states that the operations above can produce from a state \<open>s\<close>, in any order and
  number: a step of the environment, a sleep, the creation of a task from a loaded raster
  followed by its rejection or its admission, the reaping of an active task, the hand-over
  of the saving queue, the draining of the completion buffer, and the two assignments of
  \<^verbatim>\<open>execute\<close> itself.
\<close>

inductive reachable :: "environment \<Rightarrow> calculator \<Rightarrow> calculator \<Rightarrow> bool"
  for env :: environment and s :: calculator where
  start: "reachable env s s"
| environment_step: "reachable env s st \<Longrightarrow> reachable env s (tick env st)"
| slept: "reachable env s st \<Longrightarrow> reachable env s (st\<lparr>sleeps := sleeps st + 1\<rparr>)"
| rejected:
    "reachable env s st \<Longrightarrow> task_memory_usage raster = Inr cost \<Longrightarrow>
     max_memory_usage st < cost \<Longrightarrow>
     reachable env s
       (reject (make_task env st name raster cost idx resolved) (st\<lparr>created := created st + 1\<rparr>))"
| admitted:
    "reachable env s st \<Longrightarrow> task_memory_usage raster = Inr cost \<Longrightarrow>
     \<not> max_memory_usage st < cost \<Longrightarrow>
     reachable env s
       (admit (make_task env st name raster cost idx resolved) (st\<lparr>created := created st + 1\<rparr>))"
| reaped:
    "reachable env s st \<Longrightarrow> t \<in> set (active_tasks st) \<Longrightarrow> reachable env s (reap env t st)"
| handed_over: "reachable env s st \<Longrightarrow> reachable env s (save_rasters_from_memory_to_disk env st)"
| drained: "reachable env s st \<Longrightarrow> reachable env s (collect_saved st)"
| save_task_added:
    "reachable env s st \<Longrightarrow> reachable env s (st\<lparr>task_manager := task_manager st @ [SaveTask]\<rparr>)"
| timed: "reachable env s st \<Longrightarrow> reachable env s (st\<lparr>total_time := x\<rparr>)"

text \<open>What the scheduler and the save worker hold between them: the tasks and records
  whose memory is reserved, and their number together with the recorded results.\<close>

definition worker_sizes :: "raster_save_task \<Rightarrow> rat" where
  "worker_sizes w =
     sum_list (map (\<lambda>(out_file, in_memory_file, estimated_size, descr, res). estimated_size)
         (task_queue w))
     + sum_list (map total_saved_size (saved_rasters w))"

definition held_memory :: "calculator \<Rightarrow> rat" where
  "held_memory st =
     sum_list (map total_memory_usage (active_tasks st))
     + sum_list (map total_memory_usage (saving_tasks_queue st))
     + worker_sizes (save_worker st)"

definition worker_not_negative :: "raster_save_task \<Rightarrow> bool" where
  "worker_not_negative w \<longleftrightarrow>
     (\<forall>(out_file, in_memory_file, estimated_size, descr, res)\<in>set (task_queue w). 0 \<le> estimated_size)
     \<and> (\<forall>r\<in>set (saved_rasters w). 0 \<le> total_saved_size r)"

definition sizes_not_negative :: "calculator \<Rightarrow> bool" where
  "sizes_not_negative st \<longleftrightarrow>
     (\<forall>t\<in>set (active_tasks st). 0 \<le> total_memory_usage t)
     \<and> (\<forall>t\<in>set (saving_tasks_queue st). 0 \<le> total_memory_usage t)
     \<and> worker_not_negative (save_worker st)"

definition accounted :: "calculator \<Rightarrow> nat" where
  "accounted st =
     length (results st) + length (active_tasks st) + length (saving_tasks_queue st)
     + length (task_queue (save_worker st)) + length (saved_rasters (save_worker st))"

text \<open>A small world for concrete runs: one raster of one megabyte with one band, tasks that
  report a progress of 100 from the given time on and succeed, and a save worker that
  handles one entry in every step.\<close>

definition example_raster :: raster_layer where
  "example_raster =
     \<lparr>source = ''a.tif'', xSize = 1024, ySize = 1024, bandCount = 1, dataTypeSize = 1\<rparr>"

definition example_environment :: "nat \<Rightarrow> environment" where
  "example_environment ready =
     \<lparr>load_layer = (\<lambda>f. if f = ''a.tif'' then Some example_raster else None),
      band_statistics = (\<lambda>raster k b. ''255.0''),
      file_stem = (\<lambda>f. takeWhile (\<lambda>c. c \<noteq> CHR ''.'') f),
      path_join = (\<lambda>d f. d @ f),
      finished = (\<lambda>t i. ready \<le> t),
      outcome = (\<lambda>i. Succeeded 1),
      worker_turns = (\<lambda>t. Suc 0),
      translate = (\<lambda>t out_file in_memory_file. None),
      wall_time = (\<lambda>t. of_nat t / 2)\<rparr>"

definition example_task :: task where
  "example_task =
     \<lparr>task_id = 0, description = ''Calculate ExR_stary'', task_raster = example_raster,
      total_memory_usage = 2, task_index = ''ExR_stary'', formula = ''MISSING'',
      task_band_mapping = [], output_in_memory_file = ''/vsimem/a_ExR_stary.tiff'',
      task_destination = ''/out/a_ExR_stary.tiff''\<rparr>"

definition example_calculator :: "rat \<Rightarrow> int \<Rightarrow> calculator" where
  "example_calculator max_memory max_active =
     \<lparr>input_files = [''a.tif''], selected_indices = [''ExR_stary''], band_mapping = [],
      output_dir = ''/out/'', raster_layers = [], results = [], total_time = 0,
      max_memory_usage = max_memory, max_active_tasks = max_active,
      active_tasks = [], saving_tasks_queue = [], memory_usage = 0,
      number_of_tasks = 1, progress = 0, progress_step = 100,
      save_worker = new_raster_save_task,
      task_manager = [], clock = 0, created = 0, sleeps = 0\<rparr>"

(*PROOFS*)
section \<open>Properties of the constructor and of the save worker\<close>

text \<open>
  Claim C10.  With an empty list of input files the constructor raises
  \<^verbatim>\<open>ZeroDivisionError\<close>: the number of tasks is \<open>0\<close> times the number of selected indices,
  and the progress step divides 100 by it.  No object is built, so nothing is validated or
  scheduled.
\<close>

theorem init_without_input_files:
  "init [] indices bands out_dir max_memory max_active = Inl ZeroDivisionError
   \<and> calculate_progress_step (length ([] :: string list) * length (py_split CHR '','' indices))
       = Inl ZeroDivisionError"
  by (simp add: init_def calculate_progress_step_def)

lemma py_split_not_empty: "py_split sep s \<noteq> []"
  by (induction s) (auto split: list.splits)

lemma init_with_input_files:
  "files \<noteq> [] \<Longrightarrow> \<exists>st. init files indices bands out_dir max_memory max_active = Inr st"
  by (simp add: init_def calculate_progress_step_def py_split_not_empty Let_def)

lemma drains_append:
  "drains (a @ b) w =
     (case drains a w of (o1, w1) \<Rightarrow> (case drains b w1 of (o2, w2) \<Rightarrow> (o1 @ o2, w2)))"
  by (induction a w rule: drains.induct)
     (auto simp: get_and_reset_saved_rasters_def split: prod.splits)

lemma appended_append: "appended (a @ b) = appended a @ appended b"
  by (induction a rule: appended.induct) auto

lemma drains_all:
  "drains ops w = (outs, w') \<Longrightarrow> concat outs @ saved_rasters w' = saved_rasters w @ appended ops"
  by (induction ops w arbitrary: outs w' rule: drains.induct)
     (auto simp: get_and_reset_saved_rasters_def append_saved_raster_def split: prod.splits)

text \<open>
  Claim C6.  In every history of appends and drains, a drain returns exactly the records
  appended before it that no earlier drain returned: the outputs of the earlier drains
  followed by its own output are the records submitted so far, in their order.  All
  outputs together, followed by what is left in the buffer, are all records submitted, so
  no record is lost, and no record is returned twice when the records are different.
\<close>

theorem drain_exactly_once:
  assumes "drains (before @ Drain # after) w = (outs, w')"
  shows "\<exists>earlier out later.
           outs = earlier @ out # later
           \<and> drains before w = (earlier, snd (drains before w))
           \<and> concat earlier @ out = saved_rasters w @ appended before
           \<and> concat outs @ saved_rasters w' = saved_rasters w @ appended (before @ Drain # after)
           \<and> (distinct (saved_rasters w @ appended (before @ Drain # after)) \<longrightarrow> distinct (concat outs))"
proof -
  obtain earlier w1 where b: "drains before w = (earlier, w1)" by (cases "drains before w")
  obtain later w2 where a: "drains after (w1\<lparr>saved_rasters := []\<rparr>) = (later, w2)"
    by (cases "drains after (w1\<lparr>saved_rasters := []\<rparr>)")
  from assms b a have outs: "outs = earlier @ saved_rasters w1 # later"
    by (simp add: drains_append get_and_reset_saved_rasters_def)
  have e: "concat earlier @ saved_rasters w1 = saved_rasters w @ appended before"
    using drains_all [OF b] .
  have all: "concat outs @ saved_rasters w' = saved_rasters w @ appended (before @ Drain # after)"
    using drains_all [OF assms] .
  have "distinct (saved_rasters w @ appended (before @ Drain # after)) \<longrightarrow> distinct (concat outs)"
  proof
    assume "distinct (saved_rasters w @ appended (before @ Drain # after))"
    then have "distinct (concat outs @ saved_rasters w')" by (simp only: all)
    then show "distinct (concat outs)" by simp
  qed
  with outs b e all show ?thesis by auto
qed

theorem drain_exactly_once_witness:
  "drains ([Append (saved_example ''Rnorm''), Drain, Append (saved_example ''Gnorm'')] @ Drain # [])
      new_raster_save_task
     = ([[saved_example ''Rnorm''], [saved_example ''Gnorm'']], new_raster_save_task)
   \<and> distinct [saved_example ''Rnorm'', saved_example ''Gnorm'']
   \<and> distinct (concat [[saved_example ''Rnorm''], [saved_example ''Gnorm'']])"
proof -
  have h: "drains ([Append (saved_example ''Rnorm''), Drain, Append (saved_example ''Gnorm'')] @ Drain # [])
      new_raster_save_task
     = ([[saved_example ''Rnorm''], [saved_example ''Gnorm'']], new_raster_save_task)"
    by (simp add: get_and_reset_saved_rasters_def append_saved_raster_def new_raster_save_task_def)
  have d: "distinct [saved_example ''Rnorm'', saved_example ''Gnorm'']"
    by (simp add: saved_example_def)
  show ?thesis
    using drain_exactly_once [OF h] h d
    by (simp add: new_raster_save_task_def)
qed

section \<open>Admission and the wait after a sweep\<close>

text \<open>
  Claim C4.  A task whose cost alone is above the budget leaves the loop body at once:
  it is not given to the task manager, it does not become active, no memory is reserved,
  and its result is appended with the status \<^verbatim>\<open>error\<close> and the message about the maximum
  memory usage.
\<close>

theorem oversized_task_rejected:
  assumes "max_memory_usage st < total_memory_usage t"
  shows "\<exists>st'. schedule env t st = Some st'
           \<and> task_manager st' = task_manager st
           \<and> active_tasks st' = active_tasks st
           \<and> memory_usage st' = memory_usage st
           \<and> results st' = results st @ [rejected_result t]
           \<and> index (rejected_result t) = task_index t
           \<and> calculation_status (rejected_result t) = ''error''
           \<and> message (rejected_result t)
               = Some (''Task '' @ description t @ '' exceeds the maximum memory usage'')
           \<and> saving_status (rejected_result t) = None"
  using assms by (simp add: schedule_def reject_def rejected_result_def)

theorem oversized_task_rejected_witness:
  "max_memory_usage (example_calculator 1 5) < total_memory_usage example_task
   \<and> (\<exists>st'. schedule (example_environment 0) example_task (example_calculator 1 5) = Some st'
          \<and> task_manager st' = [] \<and> memory_usage st' = 0
          \<and> map calculation_status (results st') = [''error''])"
proof -
  have h: "max_memory_usage (example_calculator 1 5) < total_memory_usage example_task"
    by (simp add: example_calculator_def example_task_def)
  show ?thesis
    using h oversized_task_rejected [OF h, of "example_environment 0"]
    by (auto simp: example_calculator_def)
qed

lemma all_unfinished_frame:
  "active_tasks (snd (all_unfinished env ts st)) = active_tasks st"
  "memory_usage (snd (all_unfinished env ts st)) = memory_usage st"
  "max_memory_usage (snd (all_unfinished env ts st)) = max_memory_usage st"
  "max_active_tasks (snd (all_unfinished env ts st)) = max_active_tasks st"
  "sleeps (snd (all_unfinished env ts st)) = sleeps st"
  by (induction ts arbitrary: st; simp add: tick_def)+

lemma poll_frame:
  "active_tasks (poll env st) = active_tasks st"
  "memory_usage (poll env st) = memory_usage st"
  "max_memory_usage (poll env st) = max_memory_usage st"
  "max_active_tasks (poll env st) = max_active_tasks st"
  "sleeps (poll env st) = sleeps st"
  by (simp_all add: poll_def all_unfinished_frame)

lemma sleep_frame:
  "active_tasks (sleep env st) = active_tasks st"
  "memory_usage (sleep env st) = memory_usage st"
  "max_memory_usage (sleep env st) = max_memory_usage st"
  "max_active_tasks (sleep env st) = max_active_tasks st"
  "sleeps (sleep env st) = sleeps st + 1"
  by (simp_all add: sleep_def tick_def)

lemma waited_frame:
  "active_tasks (waited env j st) = active_tasks st"
  "memory_usage (waited env j st) = memory_usage st"
  "max_memory_usage (waited env j st) = max_memory_usage st"
  "max_active_tasks (waited env j st) = max_active_tasks st"
  "sleeps (waited env j st) = sleeps st + j"
  by (induction j arbitrary: st; simp add: poll_frame sleep_frame)+

lemma over_both_limits_waited: "over_both_limits (waited env j st) = over_both_limits st"
  by (simp add: over_both_limits_def waited_frame)

lemma wait_loop_step:
  "wait_loop env st =
     (if keeps_waiting env st then wait_loop env (sleep env (poll env st)) else Some (poll env st))"
  by (subst wait_loop.simps) (simp add: keeps_waiting_def poll_def split: prod.splits)

lemma wait_loop_after:
  "\<forall>j<k. keeps_waiting env (waited env j st) \<Longrightarrow> \<not> keeps_waiting env (waited env k st) \<Longrightarrow>
   wait_loop env st = Some (poll env (waited env k st))"
proof (induction k arbitrary: st)
  case 0
  then show ?case by (subst wait_loop_step) simp
next
  case (Suc k)
  have now: "keeps_waiting env st"
    using Suc.prems(1) [rule_format, of 0] by simp
  have "\<forall>j<k. keeps_waiting env (waited env j (sleep env (poll env st)))"
  proof (intro allI impI)
    fix j assume "j < k"
    then have "Suc j < Suc k" by simp
    from Suc.prems(1) [rule_format, OF this]
    show "keeps_waiting env (waited env j (sleep env (poll env st)))" by simp
  qed
  moreover have "\<not> keeps_waiting env (waited env k (sleep env (poll env st)))"
    using Suc.prems(2) by simp
  ultimately have "wait_loop env (sleep env (poll env st))
      = Some (poll env (waited env k (sleep env (poll env st))))"
    by (rule Suc.IH)
  with now show ?case by (subst wait_loop_step) simp
qed

lemma wait_loop_returns:
  assumes "wait_loop env st = Some st'"
  shows "\<exists>k. (\<forall>j<k. keeps_waiting env (waited env j st)) \<and> \<not> keeps_waiting env (waited env k st)
       \<and> st' = poll env (waited env k st)"
  using assms
proof (induction env st st' rule: wait_loop.raw_induct [rotated 1, consumes 1, case_names step])
  case (step loop env st st')
  have body: "(if keeps_waiting env st then loop env (sleep env (poll env st))
               else Some (poll env st)) = Some st'"
  proof (cases "all_unfinished env (active_tasks st) st")
    case (Pair unfinished st1)
    with step(2) show ?thesis
      by (cases "over_both_limits st"; cases unfinished; simp add: keeps_waiting_def poll_def)
  qed
  show ?case
  proof (cases "keeps_waiting env st")
    case False
    with body have "st' = poll env st" by simp
    with False show ?thesis by (intro exI [of _ 0]) simp
  next
    case True
    with body have "loop env (sleep env (poll env st)) = Some st'" by simp
    from step(1) [OF this] obtain k where
      k: "\<forall>j<k. keeps_waiting env (waited env j (sleep env (poll env st)))"
         "\<not> keeps_waiting env (waited env k (sleep env (poll env st)))"
         "st' = poll env (waited env k (sleep env (poll env st)))"
      by blast
    have "\<forall>j<Suc k. keeps_waiting env (waited env j st)"
    proof (intro allI impI)
      fix j assume "j < Suc k"
      then show "keeps_waiting env (waited env j st)"
        using True k(1) by (cases j) auto
    qed
    with k(2,3) show ?thesis by (intro exI [of _ "Suc k"]) simp
  qed
qed

lemma backpressure_wait_loop: "backpressure env st = wait_loop env st"
proof (cases "over_some_limit st")
  case True
  then show ?thesis by (simp add: backpressure_def)
next
  case False
  then have n: "\<not> over_both_limits st"
    by (auto simp: over_some_limit_def over_both_limits_def)
  have "wait_loop env st = Some st"
    using n by (subst wait_loop.simps) simp
  with False show ?thesis by (simp add: backpressure_def)
qed

text \<open>
  Claim C7.  The wait after a sweep returns exactly when there is a number \<open>k\<close> of turns
  such that in each of the first \<open>k\<close> turns both limits were reached (the memory in use is
  at least the budget and the number of active tasks at least the cap) and no active task
  reported a progress of 100, and in turn \<open>k\<close> one of the limits was not reached or some
  active task reported 100.  It has then slept \<open>k\<close> times, and the memory in use and the
  active tasks are what they were: when it stops after a wait, it stops on a finished task
  alone, with the memory still at or above the budget.
\<close>

theorem backpressure_waits_while:
  "backpressure env st = Some st' \<longleftrightarrow>
     (\<exists>k. (\<forall>j<k. over_both_limits st
                 \<and> fst (all_unfinished env (active_tasks st) (waited env j st)))
         \<and> \<not> (over_both_limits st
                 \<and> fst (all_unfinished env (active_tasks st) (waited env k st)))
         \<and> st' = poll env (waited env k st)
         \<and> sleeps st' = sleeps st + k
         \<and> memory_usage st' = memory_usage st
         \<and> active_tasks st' = active_tasks st)"
proof -
  have kw: "\<And>j. keeps_waiting env (waited env j st)
      \<longleftrightarrow> over_both_limits st \<and> fst (all_unfinished env (active_tasks st) (waited env j st))"
    by (simp add: keeps_waiting_def over_both_limits_waited waited_frame)
  show ?thesis
  proof
    assume "backpressure env st = Some st'"
    then have "wait_loop env st = Some st'" by (simp add: backpressure_wait_loop)
    from wait_loop_returns [OF this] obtain k where
      k: "\<forall>j<k. keeps_waiting env (waited env j st)" "\<not> keeps_waiting env (waited env k st)"
         "st' = poll env (waited env k st)"
      by blast
    then show "\<exists>k. (\<forall>j<k. over_both_limits st
                 \<and> fst (all_unfinished env (active_tasks st) (waited env j st)))
         \<and> \<not> (over_both_limits st
                 \<and> fst (all_unfinished env (active_tasks st) (waited env k st)))
         \<and> st' = poll env (waited env k st)
         \<and> sleeps st' = sleeps st + k
         \<and> memory_usage st' = memory_usage st
         \<and> active_tasks st' = active_tasks st"
      by (intro exI [of _ k]) (simp add: kw poll_frame waited_frame)
  next
    assume "\<exists>k. (\<forall>j<k. over_both_limits st
                 \<and> fst (all_unfinished env (active_tasks st) (waited env j st)))
         \<and> \<not> (over_both_limits st
                 \<and> fst (all_unfinished env (active_tasks st) (waited env k st)))
         \<and> st' = poll env (waited env k st)
         \<and> sleeps st' = sleeps st + k
         \<and> memory_usage st' = memory_usage st
         \<and> active_tasks st' = active_tasks st"
    then obtain k where
      "\<forall>j<k. keeps_waiting env (waited env j st)" "\<not> keeps_waiting env (waited env k st)"
      "st' = poll env (waited env k st)"
      by (auto simp: kw)
    then show "backpressure env st = Some st'"
      using wait_loop_after [of k env st] by (simp add: backpressure_wait_loop)
  qed
qed

theorem backpressure_waits_while_witness:
  "over_both_limits (admit example_task (example_calculator 2 1))
   \<and> fst (all_unfinished (example_environment 2)
               (active_tasks (admit example_task (example_calculator 2 1)))
               (waited (example_environment 2) 0 (admit example_task (example_calculator 2 1))))
   \<and> \<not> fst (all_unfinished (example_environment 2)
               (active_tasks (admit example_task (example_calculator 2 1)))
               (waited (example_environment 2) (Suc 0) (admit example_task (example_calculator 2 1))))
   \<and> (\<exists>st'. backpressure (example_environment 2) (admit example_task (example_calculator 2 1)) = Some st'
          \<and> sleeps st' = 1 \<and> max_memory_usage st' \<le> memory_usage st')"
proof -
  let ?env = "example_environment 2"
  let ?st = "admit example_task (example_calculator 2 1)"
  have both: "over_both_limits ?st"
    by (simp add: over_both_limits_def admit_def example_calculator_def example_task_def)
  have w0: "fst (all_unfinished ?env (active_tasks ?st) (waited ?env 0 ?st))"
    by (simp add: admit_def example_calculator_def example_task_def example_environment_def
        tick_def new_raster_save_task_def)
  have w1: "\<not> fst (all_unfinished ?env (active_tasks ?st) (waited ?env (Suc 0) ?st))"
    by (simp add: admit_def example_calculator_def example_task_def example_environment_def
        tick_def sleep_def poll_def over_both_limits_def new_raster_save_task_def)
  have k: "\<forall>j<Suc 0. over_both_limits ?st \<and> fst (all_unfinished ?env (active_tasks ?st) (waited ?env j ?st))"
    using both w0 by simp
  have s: "sleeps ?st = 0" "memory_usage ?st = 2" "max_memory_usage ?st = 2"
    by (simp_all add: admit_def example_calculator_def example_task_def)
  have "backpressure ?env ?st = Some (poll ?env (waited ?env (Suc 0) ?st))"
    using k w1
      backpressure_waits_while [of ?env ?st "poll ?env (waited ?env (Suc 0) ?st)"]
    by (simp only: poll_frame waited_frame) blast
  then show ?thesis
    using both w0 w1 s by (simp add: poll_frame sleep_frame)
qed

section \<open>Runs of the scheduler\<close>

subsection \<open>Every function of the scheduler stays within the reachable states\<close>























subsection \<open>Nothing is lost: the accounting of tasks\<close>


lemma add_tasks_queue:
  "task_queue (add_tasks env ts w)
     = task_queue w @ map (\<lambda>t. (task_destination t, output_in_memory_file t, total_memory_usage t,
                                 description t, run_result t (outcome env (task_id t)))) ts"
  "saved_rasters (add_tasks env ts w) = saved_rasters w"
  by (induction ts arbitrary: w; simp add: add_task_def)+

lemma foldl_collect_fields:
  "results (foldl (\<lambda>s r. collect r s) st rs) = results st @ map result rs"
  "active_tasks (foldl (\<lambda>s r. collect r s) st rs) = active_tasks st"
  "saving_tasks_queue (foldl (\<lambda>s r. collect r s) st rs) = saving_tasks_queue st"
  "save_worker (foldl (\<lambda>s r. collect r s) st rs) = save_worker st"
  "task_manager (foldl (\<lambda>s r. collect r s) st rs) = task_manager st"
  "memory_usage (foldl (\<lambda>s r. collect r s) st rs)
     = memory_usage st - sum_list (map total_saved_size rs)"
  by (induction rs arbitrary: st; simp add: collect_def increase_progress_def)+


lemma init_fields:
  assumes "init files indices bands out_dir max_memory max_active = Inr s"
  shows "input_files s = files" "selected_indices s = py_split CHR '','' indices"
    "number_of_tasks s = length files * length (py_split CHR '','' indices)"
    "created s = 0" "accounted s = 0" "memory_usage s = 0" "held_memory s = 0"
    "active_tasks s = []" "saving_tasks_queue s = []" "save_worker s = new_raster_save_task"
    "task_manager s = []" "results s = []" "max_memory_usage s = max_memory"
  using assms
  by (auto simp: init_def Let_def accounted_def held_memory_def worker_sizes_def
      new_raster_save_task_def split: sum.splits)

subsection \<open>A concrete run\<close>

lemmas resolver_defs =
  calculate_special_functions_def extract_special_functions_def findall.simps match_here_def
  is_word_char_def expand_loop.simps apply_special_function_def substitute_stat_def first_param_def
  py_strip_def is_space_char_def py_replace_def replace_from.simps

lemmas scheduler_defs =
  execute_def schedule_def reject_def rejected_result_def
  admit_def sweep_def transfer_finished_tasks_to_saving_queue_def transfer_loop.simps reap_def
  tick_def sleep_def save_next_def append_saved_raster_def add_task_def
  save_rasters_from_memory_to_disk_def get_saved_rasters_def collect_saved_def
  get_and_reset_saved_rasters_def
  collect_def increase_progress_def round_half_even_def backpressure_def over_some_limit_def
  over_both_limits_def wait_loop.simps wait_for_active_tasks.simps wait_for_results.simps
  make_task_def task_memory_usage_def calculate_raster_memory_usage_def indices_formulas_def
  new_raster_save_task_def Let_def

lemmas example_defs =
  example_calculator_def example_environment_def example_raster_def example_task_def

lemma example_init:
  "init [''a.tif''] ''ExR_stary'' [] ''/out/'' 1024 5 = Inr (example_calculator 1024 5)"
  by (simp add: init_def calculate_progress_step_def example_calculator_def Let_def)




subsection \<open>The memory counter is the memory held\<close>

lemma task_memory_usage_not_negative: "task_memory_usage raster = Inr cost \<Longrightarrow> 0 \<le> cost"
  by (auto simp: task_memory_usage_def calculate_raster_memory_usage_def Let_def split: if_splits)

lemma save_next_sizes:
  "worker_sizes (save_next err w) = worker_sizes w"
  "worker_not_negative w \<Longrightarrow> worker_not_negative (save_next err w)"
  by (auto simp: worker_sizes_def worker_not_negative_def save_next_def append_saved_raster_def
      split: list.splits)

lemma worker_run_sizes:
  "worker_sizes (worker_run env t k w) = worker_sizes w"
  "worker_not_negative w \<Longrightarrow> worker_not_negative (worker_run env t k w)"
  by (induction k arbitrary: w; simp add: save_next_sizes split: list.splits)+

lemma add_tasks_sizes:
  "worker_sizes (add_tasks env ts w) = worker_sizes w + sum_list (map total_memory_usage ts)"
  by (simp add: worker_sizes_def add_tasks_queue comp_def)

lemma add_tasks_not_negative:
  "worker_not_negative w \<Longrightarrow> \<forall>t\<in>set ts. 0 \<le> total_memory_usage t \<Longrightarrow>
   worker_not_negative (add_tasks env ts w)"
  by (auto simp: worker_not_negative_def add_tasks_queue)

lemma worker_sizes_not_negative: "worker_not_negative w \<Longrightarrow> 0 \<le> worker_sizes w"
  by (auto simp: worker_sizes_def worker_not_negative_def intro!: add_nonneg_nonneg sum_list_nonneg)

lemma reachable_memory:
  assumes "memory_usage s = held_memory s" and "sizes_not_negative s"
  shows "reachable env s st \<Longrightarrow> memory_usage st = held_memory st \<and> sizes_not_negative st"
proof (induction rule: reachable.induct)
  case start
  show ?case using assms by simp
next
  case (environment_step st)
  then show ?case
    by (simp add: held_memory_def sizes_not_negative_def tick_def worker_run_sizes)
next
  case (slept st)
  then show ?case by (simp add: held_memory_def sizes_not_negative_def)
next
  case (rejected st raster cost name idx resolved)
  then show ?case by (simp add: held_memory_def sizes_not_negative_def reject_def)
next
  case (admitted st raster cost name idx resolved)
  from task_memory_usage_not_negative [OF admitted(2)] admitted(4) show ?case
    by (simp add: held_memory_def sizes_not_negative_def admit_def make_task_def)
next
  case (reaped st t)
  have sum: "sum_list (map total_memory_usage (active_tasks st))
      = total_memory_usage t + sum_list (map total_memory_usage (remove1 t (active_tasks st)))"
    using reaped(2) by (rule sum_list_map_remove1)
  have sub: "\<forall>x\<in>set (remove1 t (active_tasks st)). 0 \<le> total_memory_usage x"
    using reaped(3) set_remove1_subset [of t "active_tasks st"]
    by (auto simp: sizes_not_negative_def)
  from reaped(2,3) sum sub show ?case
    by (simp add: held_memory_def sizes_not_negative_def reap_def Let_def
        increase_progress_def)
next
  case (handed_over st)
  then show ?case
    by (simp add: held_memory_def sizes_not_negative_def
        save_rasters_from_memory_to_disk_def add_tasks_sizes add_tasks_not_negative)
next
  case (drained st)
  then show ?case
    by (simp add: held_memory_def sizes_not_negative_def collect_saved_def
        get_and_reset_saved_rasters_def foldl_collect_fields worker_sizes_def
        worker_not_negative_def)
next
  case (save_task_added st)
  then show ?case by (simp add: held_memory_def sizes_not_negative_def)
next
  case (timed st x)
  then show ?case by (simp add: held_memory_def sizes_not_negative_def)
qed

lemma held_memory_not_negative: "sizes_not_negative st \<Longrightarrow> 0 \<le> held_memory st"
  by (auto simp: held_memory_def sizes_not_negative_def
      intro!: add_nonneg_nonneg sum_list_nonneg worker_sizes_not_negative)

text \<open>
  Claim C5.  In every state that a sequence of scheduler operations produces from a
  freshly constructed scheduler, the memory counter is the sum of the costs of the tasks
  and records that are active, waiting in the saving queue, waiting in the worker's queue
  or waiting in the completion buffer; so it is never negative.
\<close>

theorem memory_usage_never_negative:
  assumes "init files indices bands out_dir max_memory max_active = Inr s"
    and "reachable env s st"
  shows "0 \<le> memory_usage st \<and> memory_usage st = held_memory st"
proof -
  note i = init_fields [OF assms(1)]
  have "sizes_not_negative s"
    by (simp add: sizes_not_negative_def worker_not_negative_def i new_raster_save_task_def)
  from reachable_memory [OF _ this assms(2)] held_memory_not_negative show ?thesis
    by (simp add: i)
qed

theorem memory_usage_never_negative_witness:
  "init [''a.tif''] ''ExR_stary'' [] ''/out/'' 1024 5 = Inr (example_calculator 1024 5)
   \<and> reachable (example_environment 0) (example_calculator 1024 5)
       (admit example_task ((example_calculator 1024 5)\<lparr>created := 1\<rparr>))
   \<and> memory_usage (admit example_task ((example_calculator 1024 5)\<lparr>created := 1\<rparr>)) = 2
   \<and> 0 \<le> memory_usage (admit example_task ((example_calculator 1024 5)\<lparr>created := 1\<rparr>))"
proof -
  have c: "task_memory_usage example_raster = Inr 2"
    by (simp add: task_memory_usage_def calculate_raster_memory_usage_def example_raster_def)
  have n: "\<not> max_memory_usage (example_calculator 1024 5) < 2"
    by (simp add: example_calculator_def)
  have t: "make_task (example_environment 0) (example_calculator 1024 5) ''a'' example_raster 2
             ''ExR_stary'' ''MISSING'' = example_task"
    by (simp add: make_task_def example_defs)
  have r: "reachable (example_environment 0) (example_calculator 1024 5)
       (admit example_task ((example_calculator 1024 5)\<lparr>created := 1\<rparr>))"
    using reachable.admitted [OF reachable.start c n, of "example_environment 0" "''a''"
        "''ExR_stary''" "''MISSING''"]
    by (simp add: t) (simp add: example_calculator_def)
  show ?thesis
    using memory_usage_never_negative [OF example_init r] example_init r
    by (simp add: admit_def example_calculator_def example_task_def)
qed


subsection \<open>Failures of input validation\<close>

lemma file_loop_append:
  "file_loop env (before @ rest) st =
     (case file_loop env before st of
        None \<Rightarrow> None
      | Some (Inl x) \<Rightarrow> Some (Inl x)
      | Some (Inr st1) \<Rightarrow> file_loop env rest st1)"
  by (induction before arbitrary: st) (auto split: option.splits sum.splits)

lemma validate_indices_None:
  "validate_indices names = None \<longleftrightarrow> (\<forall>i\<in>set names. map_of indices_formulas i \<noteq> None)"
  by (induction names) auto

lemma validate_indices_Some:
  "validate_indices names = Some e \<Longrightarrow>
   \<exists>j\<in>set names. map_of indices_formulas j = None \<and> e = ValueError (''Unsupported index: '' @ j)"
  by (induction names) (auto split: if_splits)

text \<open>
  Claim C3, as amended.  An unsupported index name aborts the run before anything is
  scheduled: \<^verbatim>\<open>execute\<close> raises \<^verbatim>\<open>ValueError\<close> in the state it started in.  An invalid
  raster file aborts the run when the task generator reaches it: what has happened until
  then is the run over the files before it, and no task of the invalid file or of a later
  file is created.  When the invalid file is the first one, no calculation task has been
  submitted and no result recorded; only the save worker has been given to the task
  manager.
\<close>

theorem invalid_input_aborts:
  "(i \<in> set (selected_indices st) \<and> map_of indices_formulas i = None \<longrightarrow>
      (\<exists>j. j \<in> set (selected_indices st) \<and> map_of indices_formulas j = None
           \<and> execute env st = Some (Inl (ValueError (''Unsupported index: '' @ j), st))))
   \<and> ((\<forall>i\<in>set (selected_indices st). map_of indices_formulas i \<noteq> None)
        \<and> input_files st = before @ f # after \<and> load_layer env f = None \<longrightarrow>
      execute env st =
        (case file_loop env before (st\<lparr>task_manager := task_manager st @ [SaveTask]\<rparr>) of
           None \<Rightarrow> None
         | Some (Inl x) \<Rightarrow> Some (Inl x)
         | Some (Inr st1) \<Rightarrow>
             Some (Inl (QgsProcessingException (''Invalid raster file: '' @ f), st1))))
   \<and> ((\<forall>i\<in>set (selected_indices st). map_of indices_formulas i \<noteq> None)
        \<and> input_files st = f # after \<and> load_layer env f = None \<longrightarrow>
      execute env st =
        Some (Inl (QgsProcessingException (''Invalid raster file: '' @ f),
                   st\<lparr>task_manager := task_manager st @ [SaveTask]\<rparr>)))"
proof (intro conjI impI)
  assume "i \<in> set (selected_indices st) \<and> map_of indices_formulas i = None"
  then have "validate_indices (selected_indices st) \<noteq> None"
    by (auto simp: validate_indices_None)
  then obtain e where e: "validate_indices (selected_indices st) = Some e" by auto
  from validate_indices_Some [OF e] obtain j where
    "j \<in> set (selected_indices st)" "map_of indices_formulas j = None"
    "e = ValueError (''Unsupported index: '' @ j)" by blast
  with e show "\<exists>j. j \<in> set (selected_indices st) \<and> map_of indices_formulas j = None
           \<and> execute env st = Some (Inl (ValueError (''Unsupported index: '' @ j), st))"
    by (auto simp: execute_def)
next
  assume a: "(\<forall>i\<in>set (selected_indices st). map_of indices_formulas i \<noteq> None)
        \<and> input_files st = before @ f # after \<and> load_layer env f = None"
  then have v: "validate_indices (selected_indices st) = None"
    by (simp add: validate_indices_None)
  from a show "execute env st =
        (case file_loop env before (st\<lparr>task_manager := task_manager st @ [SaveTask]\<rparr>) of
           None \<Rightarrow> None
         | Some (Inl x) \<Rightarrow> Some (Inl x)
         | Some (Inr st1) \<Rightarrow>
             Some (Inl (QgsProcessingException (''Invalid raster file: '' @ f), st1)))"
    by (simp add: execute_def v Let_def file_loop_append split: option.splits sum.splits)
next
  assume a: "(\<forall>i\<in>set (selected_indices st). map_of indices_formulas i \<noteq> None)
        \<and> input_files st = f # after \<and> load_layer env f = None"
  then have v: "validate_indices (selected_indices st) = None"
    by (simp add: validate_indices_None)
  from a show "execute env st =
        Some (Inl (QgsProcessingException (''Invalid raster file: '' @ f),
                   st\<lparr>task_manager := task_manager st @ [SaveTask]\<rparr>))"
    by (simp add: execute_def v Let_def)
qed

theorem invalid_input_aborts_witness:
  "''NDVI'' \<in> set (selected_indices ((example_calculator 1024 5)\<lparr>selected_indices := [''NDVI'']\<rparr>))
   \<and> map_of indices_formulas ''NDVI'' = None
   \<and> execute (example_environment 0) ((example_calculator 1024 5)\<lparr>selected_indices := [''NDVI'']\<rparr>)
       = Some (Inl (ValueError ''Unsupported index: NDVI'',
                    (example_calculator 1024 5)\<lparr>selected_indices := [''NDVI'']\<rparr>))
   \<and> map_of indices_formulas ''ExR_stary'' \<noteq> None
   \<and> input_files ((example_calculator 1024 5)\<lparr>input_files := [''b.tif'']\<rparr>) = [] @ ''b.tif'' # []
   \<and> load_layer (example_environment 0) ''b.tif'' = None
   \<and> execute (example_environment 0) ((example_calculator 1024 5)\<lparr>input_files := [''b.tif'']\<rparr>)
       = Some (Inl (QgsProcessingException ''Invalid raster file: b.tif'',
                    (example_calculator 1024 5)\<lparr>input_files := [''b.tif''],
                                                  task_manager := [SaveTask]\<rparr>))"
proof -
  have n: "map_of indices_formulas ''NDVI'' = None"
    by (simp add: indices_formulas_def)
  have e: "map_of indices_formulas ''ExR_stary'' \<noteq> None"
    by (simp add: indices_formulas_def)
  have l: "load_layer (example_environment 0) ''b.tif'' = None"
    by (simp add: example_environment_def)
  have 1: "execute (example_environment 0) ((example_calculator 1024 5)\<lparr>selected_indices := [''NDVI'']\<rparr>)
       = Some (Inl (ValueError ''Unsupported index: NDVI'',
                    (example_calculator 1024 5)\<lparr>selected_indices := [''NDVI'']\<rparr>))"
    using n invalid_input_aborts [of "''NDVI''"
        "(example_calculator 1024 5)\<lparr>selected_indices := [''NDVI'']\<rparr>" "example_environment 0"]
    by (auto simp: example_calculator_def)
  have 2: "execute (example_environment 0) ((example_calculator 1024 5)\<lparr>input_files := [''b.tif'']\<rparr>)
       = Some (Inl (QgsProcessingException ''Invalid raster file: b.tif'',
                    (example_calculator 1024 5)\<lparr>input_files := [''b.tif''],
                                                  task_manager := [SaveTask]\<rparr>))"
    using e l invalid_input_aborts [of _
        "(example_calculator 1024 5)\<lparr>input_files := [''b.tif'']\<rparr>" "example_environment 0"
        "[]" "''b.tif''" "[]"]
    by (simp add: example_calculator_def)
  show ?thesis using n e l 1 2 by (simp add: example_calculator_def)
qed

text \<open>
  The claim as stated fails for an invalid file that is not the first: with the files
  \<^verbatim>\<open>a.tif\<close> (valid) and \<^verbatim>\<open>b.tif\<close> (invalid), the run raises for \<^verbatim>\<open>b.tif\<close> after the task of
  \<^verbatim>\<open>a.tif\<close> has been submitted to the task manager and its result recorded.
\<close>

theorem invalid_raster_after_scheduling_counterexample:
  "init [''a.tif'', ''b.tif''] ''ExR_stary'' [] ''/out/'' 1024 5
     = Inr ((example_calculator 1024 5)
              \<lparr>input_files := [''a.tif'', ''b.tif''], number_of_tasks := 2, progress_step := 50\<rparr>)
   \<and> load_layer (example_environment 0) ''b.tif'' = None
   \<and> execute (example_environment 0)
       ((example_calculator 1024 5)
          \<lparr>input_files := [''a.tif'', ''b.tif''], number_of_tasks := 2, progress_step := 50\<rparr>)
     = Some (Inl (QgsProcessingException ''Invalid raster file: b.tif'',
         (example_calculator 1024 5)
           \<lparr>input_files := [''a.tif'', ''b.tif''], number_of_tasks := 2, progress_step := 50,
            results := [\<lparr>index = ''ExR_stary'', calculation_status = ''success'', message = None,
                         output_file = None, time_spent = 1, saving_status = Some ''success''\<rparr>],
            progress := 50,
            task_manager := [SaveTask, CalculatorTask example_task],
            clock := 2, created := 1\<rparr>))"
  by (simp add: init_def calculate_progress_step_def scheduler_defs resolver_defs example_defs)

section \<open>Properties of the formula resolver\<close>

lemma strip_prefix_Some_iff: "strip_prefix p s = Some r \<longleftrightarrow> s = p @ r"
  by (induction p s rule: strip_prefix.induct) auto

lemma match_here_no_func:
  assumes "\<not> sublist ''func_'' s"
  shows "match_here s = None"
proof -
  have "strip_prefix ''func_'' s = None"
  proof (cases "strip_prefix ''func_'' s")
    case (Some r)
    then have "s = [] @ ''func_'' @ r" by (simp add: strip_prefix_Some_iff)
    then have "sublist ''func_'' s" unfolding sublist_def by blast
    with assms show ?thesis by simp
  qed simp
  then show ?thesis by (simp add: match_here_def)
qed

lemma findall_no_func: "\<not> sublist ''func_'' s \<Longrightarrow> findall s = []"
proof (induction s)
  case Nil
  then show ?case by (simp add: findall.simps match_here_no_func)
next
  case (Cons c cs)
  from Cons.prems have "\<not> sublist ''func_'' cs"
    by (meson sublist_Cons_right)
  with Cons show ?case by (simp add: findall.simps match_here_no_func)
qed

text \<open>
  Claim C9.  An expression in which \<^verbatim>\<open>func_\<close> does not occur is returned by the formula
  resolver as it is, whatever the band statistics and the band mapping.
\<close>

theorem flat_expression_unchanged:
  assumes "\<not> sublist ''func_'' expression"
  shows "calculate_special_functions stat bands expression = Some (Inr expression)"
  using assms
  by (simp add: calculate_special_functions_def extract_special_functions_def
      findall_no_func expand_loop.simps)

theorem flat_expression_unchanged_witness:
  "\<not> sublist ''func_'' ''(G - R) / (G + R)'' \<and>
   calculate_special_functions (\<lambda>k b. ''255.0'') [''R'' \<mapsto> 1, ''G'' \<mapsto> 2] ''(G - R) / (G + R)''
     = Some (Inr ''(G - R) / (G + R)'')"
proof -
  have h: "\<not> sublist ''func_'' ''(G - R) / (G + R)''" by code_simp
  show ?thesis using h flat_expression_unchanged [OF h] by simp
qed

lemma word_char_plain:
  assumes "is_word_char c"
  shows "c \<noteq> CHR '')''" and "c \<noteq> CHR '',''" and "c \<noteq> CHR ''(''" and "\<not> is_space_char c"
proof -
  show "c \<noteq> CHR '')''" using assms by (auto simp: is_word_char_def)
  show "c \<noteq> CHR '',''" using assms by (auto simp: is_word_char_def)
  show "c \<noteq> CHR ''(''" using assms by (auto simp: is_word_char_def)
  show "\<not> is_space_char c" using assms by (auto simp: is_word_char_def is_space_char_def Let_def)
qed

lemma py_split_no_sep: "sep \<notin> set s \<Longrightarrow> py_split sep s = [s]"
  by (induction s) auto

lemma py_strip_plain:
  assumes "s \<noteq> []" and "\<not> is_space_char (hd s)" and "\<not> is_space_char (last s)"
  shows "py_strip s = s"
proof -
  have a: "dropWhile is_space_char s = s"
    using assms by (cases s) auto
  have "hd (rev s) = last s" using assms(1) by (simp add: hd_rev)
  then have b: "dropWhile is_space_char (rev s) = rev s"
    using assms by (simp add: dropWhile_eq_self_iff)
  show ?thesis by (simp add: py_strip_def a b)
qed

lemma replace_from_whole: "old \<noteq> [] \<Longrightarrow> replace_from old new old = new"
proof -
  assume "old \<noteq> []"
  then obtain c cs where o: "old = c # cs" by (cases old) auto
  have "strip_prefix old (c # cs) = Some []" by (simp add: strip_prefix_Some_iff o)
  then show ?thesis
    using o by (simp add: replace_from.simps)
qed

lemma flat_in_parentheses:
  assumes "\<not> sublist ''func_'' t"
  shows "\<not> sublist ''func_'' (''('' @ t @ '')'')"
proof
  assume "sublist ''func_'' (''('' @ t @ '')'')"
  then have "sublist ''func_'' (t @ '')'')"
    by (simp add: sublist_Cons_right)
  then have "suffix ''func_'' (t @ '')'') \<or> sublist ''func_'' t"
    by (simp add: sublist_snoc)
  with assms show False by (auto simp: suffix_def)
qed

lemma match_index_reference:
  assumes "\<forall>c\<in>set A. is_word_char c"
  shows "match_here (''func_index('' @ A @ '')'') = Some (''index'', A, [])"
proof -
  have np: "\<And>x. x \<in> set A \<Longrightarrow> x \<noteq> CHR '')''"
    using assms word_char_plain(1) by blast
  have t: "takeWhile (\<lambda>x. x \<noteq> CHR '')'') (A @ '')'') = A"
    using np by (simp add: takeWhile_append2)
  have d: "dropWhile (\<lambda>x. x \<noteq> CHR '')'') (A @ '')'') = '')''"
    using np by (simp add: dropWhile_append2)
  show ?thesis
    by (simp add: match_here_def is_word_char_def t d)
qed

lemma extract_index_reference:
  assumes "A \<noteq> []" and "\<forall>c\<in>set A. is_word_char c"
  shows "extract_special_functions (''func_index('' @ A @ '')'') =
    [\<lparr>whole_match = ''func_index('' @ A @ '')'', function_name = ''index'', parameters = [A]\<rparr>]"
proof -
  have comma: "CHR '','' \<notin> set A"
    using assms(2) word_char_plain(2) by blast
  have "\<not> is_space_char (hd A)" "\<not> is_space_char (last A)"
    using assms word_char_plain(4) by simp_all
  then have strip: "py_strip A = A"
    using assms(1) by (rule_tac py_strip_plain)
  have "findall (''func_index('' @ A @ '')'') = [(''func_index('' @ A @ '')'', ''index'', A)]"
    using match_index_reference [OF assms(2)]
    by (subst findall.simps) (simp add: findall.simps [of "[]"] match_here_def)
  then show ?thesis
    using assms(1) by (simp add: extract_special_functions_def py_split_no_sep [OF comma] strip)
qed

lemma library_names_plain:
  "(A, t) \<in> set indices_formulas \<Longrightarrow> A \<noteq> [] \<and> (\<forall>c\<in>set A. is_word_char c)"
  by (auto simp: indices_formulas_def is_word_char_def)

text \<open>
  Claim C2, as amended.  For every formula name \<open>A\<close> of the library whose template \<open>t\<close>
  contains no \<^verbatim>\<open>func_\<close>, resolving \<^verbatim>\<open>func_index(A)\<close> takes one expansion round (the
  \<^verbatim>\<open>for\<close> loop runs once and the next scan finds nothing) and returns the template
  wrapped in one pair of parentheses, \<^verbatim>\<open>(t)\<close>.
\<close>

theorem index_reference_wrapped:
  assumes lib: "map_of indices_formulas A = Some t"
    and flat: "\<not> sublist ''func_'' t"
  shows "apply_special_functions stat bands
           (extract_special_functions (''func_index('' @ A @ '')'')) (''func_index('' @ A @ '')'')
           = Inr (''('' @ t @ '')'')
       \<and> extract_special_functions (''('' @ t @ '')'') = []
       \<and> calculate_special_functions stat bands (''func_index('' @ A @ '')'')
           = Some (Inr (''('' @ t @ '')''))"
proof -
  from lib have "(A, t) \<in> set indices_formulas" by (rule map_of_SomeD)
  then have name: "A \<noteq> []" "\<forall>c\<in>set A. is_word_char c"
    using library_names_plain by blast+
  define e where "e = ''func_index('' @ A @ '')''"
  define r where "r = ''('' @ t @ '')''"
  have ne: "e \<noteq> []" by (simp add: e_def)
  have ex: "extract_special_functions e =
      [\<lparr>whole_match = e, function_name = ''index'', parameters = [A]\<rparr>]"
    using extract_index_reference [OF name] by (simp only: e_def)
  have round: "apply_special_functions stat bands (extract_special_functions e) e = Inr r"
    using replace_from_whole [OF ne, of r]
    by (simp add: ex apply_special_function_def first_param_def lib py_replace_def ne r_def)
  have fin: "extract_special_functions r = []"
    using findall_no_func [OF flat_in_parentheses [OF flat]]
    by (simp add: extract_special_functions_def r_def)
  have "calculate_special_functions stat bands e = Some (Inr r)"
    unfolding calculate_special_functions_def
    by (subst expand_loop.simps, simp only: round, subst expand_loop.simps)
       (simp add: ex fin)
  with round fin show ?thesis unfolding e_def r_def by blast
qed

theorem index_reference_wrapped_witness:
  "map_of indices_formulas ''ExR_wernette'' = Some ''1.4 * R - G'' \<and>
   \<not> sublist ''func_'' ''1.4 * R - G'' \<and>
   calculate_special_functions (\<lambda>k b. ''255.0'') Map.empty ''func_index(ExR_wernette)''
     = Some (Inr ''(1.4 * R - G)'')"
proof -
  have l: "map_of indices_formulas ''ExR_wernette'' = Some ''1.4 * R - G''"
    by (simp add: indices_formulas_def)
  have f: "\<not> sublist ''func_'' ''1.4 * R - G''" by code_simp
  show ?thesis
    using l f index_reference_wrapped [OF l f, of "\<lambda>k b. ''255.0''" Map.empty] by simp
qed

text \<open>
  The result is not the bare template: for \<^verbatim>\<open>ExR_wernette\<close>, whose template
  \<^verbatim>\<open>1.4 * R - G\<close> contains no \<^verbatim>\<open>func_\<close>, the resolver returns \<^verbatim>\<open>(1.4 * R - G)\<close>.
\<close>

theorem index_reference_not_bare_counterexample:
  "map_of indices_formulas ''ExR_wernette'' = Some ''1.4 * R - G'' \<and>
   \<not> sublist ''func_'' ''1.4 * R - G'' \<and>
   calculate_special_functions (\<lambda>k b. ''255.0'') Map.empty ''func_index(ExR_wernette)''
     \<noteq> Some (Inr ''1.4 * R - G'')"
proof -
  have "calculate_special_functions (\<lambda>k b. ''255.0'') Map.empty ''func_index(ExR_wernette)''
     = Some (Inr ''(1.4 * R - G)'')"
    by code_simp
  moreover have "map_of indices_formulas ''ExR_wernette'' = Some ''1.4 * R - G''"
    by (simp add: indices_formulas_def)
  moreover have "\<not> sublist ''func_'' ''1.4 * R - G''" by code_simp
  ultimately show ?thesis by simp
qed

end
